theory Spec2Isabelle
  imports Main
begin

section \<open>The syntax tree handed to the visitor\<close>

text \<open>
  \<open>code_analysis.py\<close> walks the tree that \<open>ast.parse\<close> returns. The node kinds the
  visitor or \<open>ast.get_docstring\<close> tell apart are constructors of their own, with their
  child-bearing fields in the order of the node's \<open>_fields\<close>; every other node kind
  is \<open>Other\<close> with its child nodes in field order. Fields that hold no node and are
  never read (\<open>type_comment\<close>, \<open>lineno\<close>, ...) are left out.
  Strings are \<open>string\<close>; a character stands for one code point of a Python \<open>str\<close>.
\<close>

datatype import_alias = Alias (name: string) (asname: "string option")

datatype const_value = StrV string | OtherV

datatype node =
    Module "node list" "node list"
      \<comment> \<open>body, type_ignores\<close>
  | FunctionDef string node "node list" "node list" "node option" "node list"
      \<comment> \<open>name, args, body, decorator_list, returns, type_params\<close>
  | AsyncFunctionDef string node "node list" "node list" "node option" "node list"
      \<comment> \<open>the same fields as FunctionDef\<close>
  | ClassDef string "node list" "node list" "node list" "node list" "node list"
      \<comment> \<open>name, bases, keywords, body, decorator_list, type_params\<close>
  | Import "import_alias list"
      \<comment> \<open>names\<close>
  | ImportFrom "string option" "import_alias list" nat
      \<comment> \<open>module (None for \<open>from . import y\<close>), names, level\<close>
  | Expr node
      \<comment> \<open>value\<close>
  | Constant const_value
      \<comment> \<open>value\<close>
  | Other "node list"
      \<comment> \<open>any other node kind, with its child nodes in field order\<close>

text \<open>
  \<open>ast.iter_child_nodes\<close>: the child nodes of a node, field by field. An alias has
  string fields only, so visiting the aliases of an import statement reaches no handler
  and no further node; they are not listed.
\<close>

fun opt_list :: "'a option \<Rightarrow> 'a list" where
  "opt_list None = []"
| "opt_list (Some x) = [x]"

fun iter_child_nodes :: "node \<Rightarrow> node list" where
  "iter_child_nodes (Module body tys) = body @ tys"
| "iter_child_nodes (FunctionDef nm args body decos ret tps) =
     args # body @ decos @ opt_list ret @ tps"
| "iter_child_nodes (AsyncFunctionDef nm args body decos ret tps) =
     args # body @ decos @ opt_list ret @ tps"
| "iter_child_nodes (ClassDef nm bases kws body decos tps) =
     bases @ kws @ body @ decos @ tps"
| "iter_child_nodes (Import names) = []"
| "iter_child_nodes (ImportFrom m names lvl) = []"
| "iter_child_nodes (Expr v) = [v]"
| "iter_child_nodes (Constant c) = []"
| "iter_child_nodes (Other cs) = cs"

section \<open>The analyzer's state and the console\<close>

text \<open>
  A Python dict whose values may be \<open>None\<close> is a map into \<open>string option\<close>:
  \<open>m k = None\<close> is a missing key, \<open>m k = Some None\<close> a key stored with \<open>None\<close>.
\<close>

record analyzer =
  "functions" :: "string \<rightharpoonup> string option"
  classes :: "string \<rightharpoonup> string option"
  dependencies :: "string set"

text \<open>
  The console is the list of the texts handed to \<open>print\<close>, oldest first. A loop that
  prints the elements of a set does so in the set's iteration order, which Python leaves
  open; it is one event holding the set of its lines.
\<close>

datatype event = Print string | PrintEach "string set"

type_synonym visitor_state = "analyzer \<times> event list"

definition init :: analyzer where
  "init = \<lparr>functions = Map.empty, classes = Map.empty, dependencies = {}\<rparr>"

definition Fore_RED :: string where "Fore_RED = CHR 0x1B # ''[31m''"
definition Fore_GREEN :: string where "Fore_GREEN = CHR 0x1B # ''[32m''"
definition Fore_YELLOW :: string where "Fore_YELLOW = CHR 0x1B # ''[33m''"
definition Fore_BLUE :: string where "Fore_BLUE = CHR 0x1B # ''[34m''"

definition tab :: char where "tab = CHR 0x09"
definition newline :: char where "newline = CHR 0x0A"

text \<open>How an f-string renders an optional string: \<open>None\<close> becomes the text \<open>None\<close>.\<close>

fun format_opt :: "string option \<Rightarrow> string" where
  "format_opt None = ''None''"
| "format_opt (Some s) = s"

section \<open>Docstrings\<close>

text \<open>
  \<open>ast.get_docstring(node)\<close> on a function or class definition: the first statement of
  the body, when it is an expression statement holding a string constant, passed through
  \<open>inspect.cleandoc\<close>; \<open>None\<close> otherwise. \<open>inspect.cleandoc\<close> belongs to the
  Python library and differs between Python versions; it is the parameter \<open>clean\<close>.
\<close>

fun docstring_literal :: "node list \<Rightarrow> string option" where
  "docstring_literal (Expr (Constant (StrV s)) # rest) = Some s"
| "docstring_literal body = None"

definition get_docstring :: "(string \<Rightarrow> string) \<Rightarrow> node list \<Rightarrow> string option" where
  "get_docstring clean body = map_option clean (docstring_literal body)"

section \<open>The visitor\<close>

text \<open>
  Each handler of \<open>CodeStructureAnalyzer\<close> prints, records, and ends with
  \<open>self.generic_visit(node)\<close>. The lines before that call are \<open>record_FunctionDef\<close>
  (lines 33 to 37), \<open>record_ClassDef\<close> (46 to 50), \<open>record_Import\<close> (the loop of
  lines 59 to 61) and \<open>record_ImportFrom\<close> (the loop of lines 70 to 72); \<open>visit\<close>
  below is \<open>NodeVisitor.visit\<close>, which calls the handler of the node's kind and
  \<open>generic_visit\<close> for a kind without one, and \<open>generic_visit\<close> visits the child
  nodes in order. The state is the analyzer and the console.
\<close>

definition print_docstring :: "string option \<Rightarrow> event list \<Rightarrow> event list" where
  "print_docstring docstring out =
     (case docstring of
        None \<Rightarrow> out
      | Some d \<Rightarrow> if d \<noteq> [] then out @ [Print (tab # ''Docstring: '' @ d)] else out)"

definition record_FunctionDef ::
  "(string \<Rightarrow> string) \<Rightarrow> string \<Rightarrow> node list \<Rightarrow> visitor_state \<Rightarrow> visitor_state" where
  "record_FunctionDef clean nm body s =
     (let out1 = snd s @ [Print (Fore_GREEN @ ''Function: '' @ nm)];
          docstring = get_docstring clean body;
          out2 = print_docstring docstring out1
      in ((fst s)\<lparr>functions := (functions (fst s))(nm \<mapsto> get_docstring clean body)\<rparr>, out2))"

definition record_ClassDef ::
  "(string \<Rightarrow> string) \<Rightarrow> string \<Rightarrow> node list \<Rightarrow> visitor_state \<Rightarrow> visitor_state" where
  "record_ClassDef clean nm body s =
     (let out1 = snd s @ [Print (Fore_BLUE @ ''Class: '' @ nm)];
          docstring = get_docstring clean body;
          out2 = print_docstring docstring out1
      in ((fst s)\<lparr>classes := (classes (fst s))(nm \<mapsto> get_docstring clean body)\<rparr>, out2))"

fun record_Import :: "import_alias list \<Rightarrow> visitor_state \<Rightarrow> visitor_state" where
  "record_Import [] s = s"
| "record_Import (al # names) s =
     record_Import names
       ((fst s)\<lparr>dependencies := insert (name al) (dependencies (fst s))\<rparr>,
        snd s @ [Print (Fore_YELLOW @ ''Import: '' @ name al)])"

fun record_ImportFrom :: "string option \<Rightarrow> import_alias list \<Rightarrow> visitor_state \<Rightarrow> visitor_state" where
  "record_ImportFrom m [] s = s"
| "record_ImportFrom m (al # names) s =
     record_ImportFrom m names
       ((fst s)\<lparr>dependencies :=
           insert (format_opt m @ ''.'' @ name al) (dependencies (fst s))\<rparr>,
        snd s @ [Print (Fore_YELLOW @ ''Import: '' @ format_opt m @ ''.'' @ name al)])"

lemma size_mem: "c \<in> set xs \<Longrightarrow> size (c::node) \<le> size_list size xs"
  by (induction xs) auto

lemma set_opt_list: "set (opt_list r) = set_option r"
  by (cases r) auto

lemma size_child: "c \<in> set (iter_child_nodes n) \<Longrightarrow> size c < size n"
  by (cases n) (auto simp: set_opt_list dest!: size_mem)

function visit :: "(string \<Rightarrow> string) \<Rightarrow> node \<Rightarrow> visitor_state \<Rightarrow> visitor_state"
  and generic_visit :: "(string \<Rightarrow> string) \<Rightarrow> node \<Rightarrow> visitor_state \<Rightarrow> visitor_state"
where
  "visit clean (FunctionDef nm args body decos ret tps) s =
     generic_visit clean (FunctionDef nm args body decos ret tps)
       (record_FunctionDef clean nm body s)"
| "visit clean (ClassDef nm bases kws body decos tps) s =
     generic_visit clean (ClassDef nm bases kws body decos tps)
       (record_ClassDef clean nm body s)"
| "visit clean (Import names) s =
     generic_visit clean (Import names) (record_Import names s)"
| "visit clean (ImportFrom m names lvl) s =
     generic_visit clean (ImportFrom m names lvl) (record_ImportFrom m names s)"
| "visit clean (Module body tys) s = generic_visit clean (Module body tys) s"
| "visit clean (AsyncFunctionDef nm args body decos ret tps) s =
     generic_visit clean (AsyncFunctionDef nm args body decos ret tps) s"
| "visit clean (Expr v) s = generic_visit clean (Expr v) s"
| "visit clean (Constant c) s = generic_visit clean (Constant c) s"
| "visit clean (Other cs) s = generic_visit clean (Other cs) s"
| "generic_visit clean n s = fold (visit clean) (iter_child_nodes n) s"
  by pat_completeness auto
termination
  by (relation "measure (\<lambda>x. case x of
          Inl (clean, n, s) \<Rightarrow> 2 * size n + 1
        | Inr (clean, n, s) \<Rightarrow> 2 * size n)")
     (auto dest: size_child)

section \<open>The traversal order and what a single node records\<close>

text \<open>
  The spec's traversal: depth-first, pre-order, a node before its children and the
  children in field order. \<open>visit_order t\<close> lists the nodes of \<open>t\<close> in that order;
  these are the nodes the visitor visits.
\<close>

function visit_order :: "node \<Rightarrow> node list" where
  "visit_order n = n # concat (map visit_order (iter_child_nodes n))"
  by pat_completeness auto
termination
  by (relation "measure size") (auto dest: size_child)

declare visit_order.simps [simp del]

text \<open>What visiting one node records, its children left aside.\<close>

fun node_effect :: "(string \<Rightarrow> string) \<Rightarrow> node \<Rightarrow> visitor_state \<Rightarrow> visitor_state" where
  "node_effect clean (FunctionDef nm args body decos ret tps) s = record_FunctionDef clean nm body s"
| "node_effect clean (ClassDef nm bases kws body decos tps) s = record_ClassDef clean nm body s"
| "node_effect clean (Import names) s = record_Import names s"
| "node_effect clean (ImportFrom m names lvl) s = record_ImportFrom m names s"
| "node_effect clean n s = s"

text \<open>A plain function definition (a class definition) of a given name.\<close>

fun is_FunctionDef :: "string \<Rightarrow> node \<Rightarrow> bool" where
  "is_FunctionDef k (FunctionDef nm args body decos ret tps) = (nm = k)"
| "is_FunctionDef k n = False"

fun is_ClassDef :: "string \<Rightarrow> node \<Rightarrow> bool" where
  "is_ClassDef k (ClassDef nm bases kws body decos tps) = (nm = k)"
| "is_ClassDef k n = False"

text \<open>The \<open>body\<close> field that \<open>ast.get_docstring\<close> reads.\<close>

fun body_of :: "node \<Rightarrow> node list" where
  "body_of (FunctionDef nm args body decos ret tps) = body"
| "body_of (AsyncFunctionDef nm args body decos ret tps) = body"
| "body_of (ClassDef nm bases kws body decos tps) = body"
| "body_of (Module body tys) = body"
| "body_of n = []"

text \<open>The dependency keys an import statement stands for.\<close>

fun imported :: "node \<Rightarrow> string list" where
  "imported (Import names) = map name names"
| "imported (ImportFrom m names lvl) = map (\<lambda>al. format_opt m @ ''.'' @ name al) names"
| "imported n = []"

section \<open>The driver\<close>

text \<open>
  What the program uses of the Python library and of reportlab, as parameters:
  \<open>ast.parse\<close> (a tree, or the exception it raises), \<open>inspect.cleandoc\<close>,
  the first component of \<open>os.path.splitext\<close>, \<open>os.path.basename\<close>, and the building of
  the document: \<open>doc_build output_file title analyzer fs\<close> stands for lines 102 to 123
  of \<open>generate_pdf_report\<close> (the table rows made from the analyzer, the styles, and
  \<open>doc.build\<close>), giving the file system afterwards and the exception raised, if any.
\<close>

datatype exn = OSError | SyntaxError | IndexError | OtherError

record pylib =
  ast_parse :: "string \<Rightarrow> exn + node"
  inspect_cleandoc :: "string \<Rightarrow> string"
  splitext_root :: "string \<Rightarrow> string"
  basename :: "string \<Rightarrow> string"
  doc_build :: "string \<Rightarrow> string \<Rightarrow> analyzer \<Rightarrow> (string \<rightharpoonup> string)
                  \<Rightarrow> (string \<rightharpoonup> string) \<times> exn option"

text \<open>
  The world of a run: the text files by path, and the console. A path with no entry is
  a file that \<open>open\<close> cannot read.
\<close>

record world =
  files :: "string \<rightharpoonup> string"
  stdout :: "event list"

text \<open>
  How a run ends: it returns, it leaves through \<open>sys.exit\<close>, or an exception nobody
  catches ends it. The interpreter's exit status is 0, the argument of \<open>sys.exit\<close>,
  and 1.
\<close>

datatype outcome = Returned | Exited nat | Uncaught exn

fun exit_status :: "outcome \<Rightarrow> nat" where
  "exit_status Returned = 0"
| "exit_status (Exited n) = n"
| "exit_status (Uncaught e) = 1"

text \<open>Lines 85 to 87 of \<open>analyze_file\<close>: parse, a fresh analyzer, visit.\<close>

definition run_analyzer :: "pylib \<Rightarrow> string \<Rightarrow> event list \<Rightarrow> exn + visitor_state" where
  "run_analyzer L code out =
     (case ast_parse L code of
        Inl e \<Rightarrow> Inl e
      | Inr tree \<Rightarrow> Inr (visit (inspect_cleandoc L) tree (init, out)))"

definition generate_pdf_report :: "pylib \<Rightarrow> analyzer \<Rightarrow> string \<Rightarrow> world \<Rightarrow> world \<times> outcome" where
  "generate_pdf_report L a file_path w =
     (let output_file = splitext_root L file_path @ ''_analysis_report.pdf'';
          title = ''Code Analysis Report: '' @ basename L file_path;
          built = doc_build L output_file title a (files w)
      in (w\<lparr>files := fst built\<rparr>,
          case snd built of None \<Rightarrow> Returned | Some e \<Rightarrow> Uncaught e))"

definition analyze_file :: "pylib \<Rightarrow> string \<Rightarrow> world \<Rightarrow> world \<times> outcome" where
  "analyze_file L file_path w =
     (case files w file_path of
        None \<Rightarrow> (w, Uncaught OSError)
      | Some code \<Rightarrow>
          (case run_analyzer L code (stdout w) of
             Inl e \<Rightarrow> (w, Uncaught e)
           | Inr s \<Rightarrow>
               generate_pdf_report L (fst s) file_path
                 (w\<lparr>stdout := snd s @
                      [Print (newline # Fore_RED @ ''Dependencies:''),
                       PrintEach ((\<lambda>dependency. tab # dependency) ` dependencies (fst s))]\<rparr>)))"

text \<open>The \<open>__main__\<close> block, on \<open>sys.argv\<close>.\<close>

definition main :: "pylib \<Rightarrow> string list \<Rightarrow> world \<Rightarrow> world \<times> outcome" where
  "main L argv w =
     (if length argv \<noteq> 2 then
        (case argv of
           [] \<Rightarrow> (w, Uncaught IndexError)
         | prog # args \<Rightarrow>
             (w\<lparr>stdout := stdout w @ [Print (''Usage: '' @ prog @ '' <path_to_python_file>'')]\<rparr>,
              Exited 1))
      else analyze_file L (argv ! 1) w)"

section \<open>Example inputs\<close>

text \<open>
  Trees as \<open>ast.parse\<close> builds them, and a library to run the driver with.
  \<open>twice_defined\<close> is \<open>def f(): "first"\<close>, \<open>class C: "one"\<close>,
  \<open>def f(): "second"\<close>, \<open>class C: "two"\<close>; \<open>with_and_without\<close> is
  \<open>def f(): pass\<close>, \<open>def g(): ""\<close>, \<open>class C: pass\<close>, \<open>class D: ""\<close>;
  \<open>nested\<close> is a class \<open>C\<close> with a method \<open>m\<close> that defines \<open>inner\<close>.
\<close>

definition twice_defined :: node where
  "twice_defined = Module
     [FunctionDef ''f'' (Other []) [Expr (Constant (StrV ''first''))] [] None [],
      ClassDef ''C'' [] [] [Expr (Constant (StrV ''one''))] [] [],
      FunctionDef ''f'' (Other []) [Expr (Constant (StrV ''second''))] [] None [],
      ClassDef ''C'' [] [] [Expr (Constant (StrV ''two''))] [] []] []"

definition with_and_without :: node where
  "with_and_without = Module
     [FunctionDef ''f'' (Other []) [Other []] [] None [],
      FunctionDef ''g'' (Other []) [Expr (Constant (StrV ''''))] [] None [],
      ClassDef ''C'' [] [] [Other []] [] [],
      ClassDef ''D'' [] [] [Expr (Constant (StrV ''''))] [] []] []"

definition nested :: node where
  "nested = Module
     [ClassDef ''C'' [] []
        [FunctionDef ''m'' (Other [])
           [FunctionDef ''inner'' (Other []) [Other []] [] None []] [] None []] [] []] []"

definition stub_lib :: "(string \<Rightarrow> exn + node) \<Rightarrow> pylib" where
  "stub_lib parse =
     \<lparr>ast_parse = parse,
      inspect_cleandoc = (\<lambda>d. d),
      splitext_root = takeWhile (\<lambda>c. c \<noteq> CHR ''.''),
      basename = (\<lambda>p. p),
      doc_build = (\<lambda>output_file title a fs. (fs(output_file \<mapsto> title), None))\<rparr>"

section \<open>Properties of the traversal\<close>

lemma fold_concat_map:
  "(\<And>x s. x \<in> set xs \<Longrightarrow> f x s = fold g (h x) s) \<Longrightarrow>
   fold f xs s = fold g (concat (map h xs)) s"
  by (induction xs arbitrary: s) auto

lemma visit_fold:
  "visit clean n s = fold (node_effect clean) (visit_order n) s"
  "generic_visit clean n s =
     fold (node_effect clean) (concat (map visit_order (iter_child_nodes n))) s"
proof (induction clean n s and clean n s rule: visit_generic_visit.induct)
  case (10 clean n s)
  then show ?case
    by (simp del: generic_visit.simps add: generic_visit.simps [of clean n s] fold_concat_map)
qed (simp_all del: generic_visit.simps add: visit_order.simps [of "FunctionDef _ _ _ _ _ _"]
   visit_order.simps [of "ClassDef _ _ _ _ _ _"]  visit_order.simps [of "AsyncFunctionDef _ _ _ _ _ _"]
   visit_order.simps [of "Module _ _"]  visit_order.simps [of "Import _"]  visit_order.simps [of "ImportFrom _ _ _"]
   visit_order.simps [of "Expr _"] visit_order.simps [of "Constant _"] visit_order.simps [of "Other _"])

lemma record_Import_fst:
  "fst (record_Import names s) =
     (fst s)\<lparr>dependencies := dependencies (fst s) \<union> name ` set names\<rparr>"
  by (induction names arbitrary: s) auto

lemma record_ImportFrom_fst:
  "fst (record_ImportFrom m names s) =
     (fst s)\<lparr>dependencies :=
        dependencies (fst s) \<union> (\<lambda>al. format_opt m @ ''.'' @ name al) ` set names\<rparr>"
  by (induction names arbitrary: s) auto


lemma record_FunctionDef_fst:
  "fst (record_FunctionDef clean nm body s) =
     (fst s)\<lparr>functions := (functions (fst s))(nm \<mapsto> get_docstring clean body)\<rparr>"
  by (simp add: record_FunctionDef_def Let_def)

lemma record_ClassDef_fst:
  "fst (record_ClassDef clean nm body s) =
     (fst s)\<lparr>classes := (classes (fst s))(nm \<mapsto> get_docstring clean body)\<rparr>"
  by (simp add: record_ClassDef_def Let_def)

lemmas record_fst = record_FunctionDef_fst record_ClassDef_fst record_Import_fst record_ImportFrom_fst

lemma node_effect_functions:
  "functions (fst (node_effect clean d s)) k =
     (if is_FunctionDef k d then Some (get_docstring clean (body_of d)) else functions (fst s) k)"
  by (cases d) (simp_all add: record_fst)

lemma node_effect_classes:
  "classes (fst (node_effect clean d s)) k =
     (if is_ClassDef k d then Some (get_docstring clean (body_of d)) else classes (fst s) k)"
  by (cases d) (simp_all add: record_fst)

lemma node_effect_dependencies:
  "dependencies (fst (node_effect clean d s)) = dependencies (fst s) \<union> set (imported d)"
  by (cases d) (simp_all add: record_fst)

lemma node_effect_fst_cong:
  "fst s = fst s' \<Longrightarrow> fst (node_effect clean d s) = fst (node_effect clean d s')"
  by (cases d) (simp_all add: record_fst)

lemma fold_functions:
  "functions (fst (fold (node_effect clean) ns s)) k =
     (case filter (is_FunctionDef k) ns of
        [] \<Rightarrow> functions (fst s) k
      | d # ds \<Rightarrow> Some (get_docstring clean (body_of (last (d # ds)))))"
proof (induction ns rule: rev_induct)
  case Nil
  show ?case by simp
next
  case (snoc x xs)
  show ?case
  proof (cases "is_FunctionDef k x")
    case True
    then show ?thesis
      by (cases "filter (is_FunctionDef k) xs") (simp_all add: node_effect_functions)
  next
    case False
    then show ?thesis using snoc by (simp add: node_effect_functions)
  qed
qed

lemma fold_classes:
  "classes (fst (fold (node_effect clean) ns s)) k =
     (case filter (is_ClassDef k) ns of
        [] \<Rightarrow> classes (fst s) k
      | d # ds \<Rightarrow> Some (get_docstring clean (body_of (last (d # ds)))))"
proof (induction ns rule: rev_induct)
  case Nil
  show ?case by simp
next
  case (snoc x xs)
  show ?case
  proof (cases "is_ClassDef k x")
    case True
    then show ?thesis
      by (cases "filter (is_ClassDef k) xs") (simp_all add: node_effect_classes)
  next
    case False
    then show ?thesis using snoc by (simp add: node_effect_classes)
  qed
qed

lemma fold_dependencies:
  "dependencies (fst (fold (node_effect clean) ns s)) =
     dependencies (fst s) \<union> set (concat (map imported ns))"
  by (induction ns rule: rev_induct) (simp_all add: node_effect_dependencies Un_assoc)

lemma fold_fst_cong:
  "fst s = fst s' \<Longrightarrow>
   fst (fold (node_effect clean) ns s) = fst (fold (node_effect clean) ns s')"
proof (induction ns arbitrary: s s')
  case Nil
  then show ?case by simp
next
  case (Cons d ns)
  from Cons.prems have "fst (node_effect clean d s) = fst (node_effect clean d s')"
    by (rule node_effect_fst_cong)
  then have "fst (fold (node_effect clean) ns (node_effect clean d s)) =
      fst (fold (node_effect clean) ns (node_effect clean d s'))"
    by (rule Cons.IH)
  then show ?case by simp
qed

lemma imported_in_order:
  "d \<in> set ns \<Longrightarrow> x \<in> set (imported d) \<Longrightarrow> x \<in> set (concat (map imported ns))"
  by auto

lemma visit_dependencies:
  "dependencies (fst (visit clean t s)) =
     dependencies (fst s) \<union> set (concat (map imported (visit_order t)))"
  by (simp add: visit_fold(1) fold_dependencies)

lemma filter_nonempty_iff: "(filter P xs \<noteq> []) = (\<exists>x\<in>set xs. P x)"
  by (simp add: filter_empty_conv)

lemma visit_fst_cong:
  "fst (visit clean t (a, out1)) = fst (visit clean t (a, out2))"
  by (simp add: visit_fold(1) fold_fst_cong)

lemma visit_functions:
  "filter (is_FunctionDef k) (visit_order t) \<noteq> [] \<Longrightarrow>
   functions (fst (visit clean t s)) k =
     Some (get_docstring clean (body_of (last (filter (is_FunctionDef k) (visit_order t)))))"
  by (cases "filter (is_FunctionDef k) (visit_order t)")
     (simp_all add: visit_fold(1) fold_functions)

lemma visit_classes:
  "filter (is_ClassDef k) (visit_order t) \<noteq> [] \<Longrightarrow>
   classes (fst (visit clean t s)) k =
     Some (get_docstring clean (body_of (last (filter (is_ClassDef k) (visit_order t)))))"
  by (cases "filter (is_ClassDef k) (visit_order t)")
     (simp_all add: visit_fold(1) fold_classes)

lemma visit_functions_untouched:
  "filter (is_FunctionDef k) (visit_order t) = [] \<Longrightarrow>
   functions (fst (visit clean t s)) k = functions (fst s) k"
  by (simp add: visit_fold(1) fold_functions)

lemma visit_classes_untouched:
  "filter (is_ClassDef k) (visit_order t) = [] \<Longrightarrow>
   classes (fst (visit clean t s)) k = classes (fst s) k"
  by (simp add: visit_fold(1) fold_classes)

section \<open>The claims\<close>

text \<open>
  C1. Every from-import statement \<open>from x import y, z\<close> that the extractor visits leaves
  the key \<open>x.y\<close>, module path, a dot, symbol name, in the dependency set, one for each
  imported symbol, whatever the state the traversal started from.
\<close>

theorem from_import_recorded:
  "ImportFrom (Some x) names lvl \<in> set (visit_order t) \<Longrightarrow> al \<in> set names \<Longrightarrow>
   x @ ''.'' @ name al \<in> dependencies (fst (visit clean t s))"
proof -
  assume node: "ImportFrom (Some x) names lvl \<in> set (visit_order t)" and al: "al \<in> set names"
  from al have "x @ ''.'' @ name al \<in> set (imported (ImportFrom (Some x) names lvl))"
    by simp
  with node have "x @ ''.'' @ name al \<in> set (concat (map imported (visit_order t)))"
    by (rule imported_in_order)
  then show ?thesis
    by (simp add: visit_dependencies)
qed

theorem from_import_recorded_witness:
  "ImportFrom (Some ''x'') [Alias ''y'' None, Alias ''z'' None] 0
     \<in> set (visit_order (Module [ImportFrom (Some ''x'') [Alias ''y'' None, Alias ''z'' None] 0] []))
   \<and> ''x.y'' \<in> dependencies (fst (visit (\<lambda>d. d)
         (Module [ImportFrom (Some ''x'') [Alias ''y'' None, Alias ''z'' None] 0] []) (init, [])))
   \<and> ''x.z'' \<in> dependencies (fst (visit (\<lambda>d. d)
         (Module [ImportFrom (Some ''x'') [Alias ''y'' None, Alias ''z'' None] 0] []) (init, [])))"
proof -
  let ?names = "[Alias ''y'' None, Alias ''z'' None]"
  let ?t = "Module [ImportFrom (Some ''x'') ?names 0] []"
  have node: "ImportFrom (Some ''x'') ?names 0 \<in> set (visit_order ?t)"
    by (simp add: visit_order.simps)
  have y: "Alias ''y'' None \<in> set ?names" and z: "Alias ''z'' None \<in> set ?names"
    by simp_all
  show ?thesis
    using node from_import_recorded [OF node y, where clean = "\<lambda>d. d" and s = "(init, [])"]
      from_import_recorded [OF node z, where clean = "\<lambda>d. d" and s = "(init, [])"]
    by simp
qed

text \<open>
  C2. After a run from a fresh analyzer, a name is a key of the functions map exactly
  when a function definition node of that name was visited, at whatever depth of the tree,
  and a key of the classes map exactly when a class definition node of that name was
  visited. The maps are flat: a nested definition is a key like any other.
\<close>

theorem names_only_from_definitions:
  "(k \<in> dom (functions (fst (visit clean t (init, out))))) =
     (\<exists>d\<in>set (visit_order t). is_FunctionDef k d)
   \<and> (k \<in> dom (classes (fst (visit clean t (init, out))))) =
     (\<exists>d\<in>set (visit_order t). is_ClassDef k d)"
proof
  show "(k \<in> dom (functions (fst (visit clean t (init, out))))) =
     (\<exists>d\<in>set (visit_order t). is_FunctionDef k d)"
    unfolding filter_nonempty_iff [symmetric]
    by (cases "filter (is_FunctionDef k) (visit_order t)")
       (simp_all add: visit_fold(1) fold_functions init_def dom_def)
  show "(k \<in> dom (classes (fst (visit clean t (init, out))))) =
     (\<exists>d\<in>set (visit_order t). is_ClassDef k d)"
    unfolding filter_nonempty_iff [symmetric]
    by (cases "filter (is_ClassDef k) (visit_order t)")
       (simp_all add: visit_fold(1) fold_classes init_def dom_def)
qed

theorem names_only_from_definitions_witness:
  "''C'' \<in> dom (classes (fst (visit (\<lambda>d. d) nested (init, []))))
   \<and> ''m'' \<in> dom (functions (fst (visit (\<lambda>d. d) nested (init, []))))
   \<and> ''inner'' \<in> dom (functions (fst (visit (\<lambda>d. d) nested (init, []))))
   \<and> ''C'' \<notin> dom (functions (fst (visit (\<lambda>d. d) nested (init, []))))
   \<and> ''m'' \<notin> dom (classes (fst (visit (\<lambda>d. d) nested (init, []))))"
  using names_only_from_definitions [of "''C''" "\<lambda>d. d" nested "[]"]
    names_only_from_definitions [of "''m''" "\<lambda>d. d" nested "[]"]
    names_only_from_definitions [of "''inner''" "\<lambda>d. d" nested "[]"]
  by (simp add: nested_def visit_order.simps)

text \<open>
  C3. A from-import statement whose module path is absent (\<open>from . import y\<close>) leaves
  the key made of the text \<open>None.\<close> and the symbol name in the dependency set.
\<close>

theorem relative_import_none_key:
  "ImportFrom None names lvl \<in> set (visit_order t) \<Longrightarrow> al \<in> set names \<Longrightarrow>
   ''None.'' @ name al \<in> dependencies (fst (visit clean t s))"
proof -
  assume node: "ImportFrom None names lvl \<in> set (visit_order t)" and al: "al \<in> set names"
  from al have "''None.'' @ name al \<in> set (imported (ImportFrom None names lvl))"
    by simp
  with node have "''None.'' @ name al \<in> set (concat (map imported (visit_order t)))"
    by (rule imported_in_order)
  then show ?thesis
    by (simp add: visit_dependencies)
qed

theorem relative_import_none_key_witness:
  "ImportFrom None [Alias ''y'' None] 1 \<in> set (visit_order (Module [ImportFrom None [Alias ''y'' None] 1] []))
   \<and> ''None.y'' \<in> dependencies (fst (visit (\<lambda>d. d)
         (Module [ImportFrom None [Alias ''y'' None] 1] []) (init, [])))"
proof -
  let ?t = "Module [ImportFrom None [Alias ''y'' None] 1] []"
  have node: "ImportFrom None [Alias ''y'' None] 1 \<in> set (visit_order ?t)"
    by (simp add: visit_order.simps)
  have y: "Alias ''y'' None \<in> set [Alias ''y'' None]"
    by simp
  show ?thesis
    using node relative_import_none_key [OF node y, where clean = "\<lambda>d. d" and s = "(init, [])"]
    by simp
qed

text \<open>
  C4. The extraction starts from a fresh analyzer and its result is a function of the
  source text alone: two runs on the same text give the same functions map, classes map
  and dependency set (or the same parse error), whatever the console held before.
\<close>

theorem extraction_deterministic:
  "map_sum (\<lambda>e. e) fst (run_analyzer L code out1) =
   map_sum (\<lambda>e. e) fst (run_analyzer L code out2)"
  by (cases "ast_parse L code") (simp_all add: run_analyzer_def visit_fst_cong [of _ _ _ out1 out2])

theorem extraction_deterministic_witness:
  "map_sum (\<lambda>e. e) fst
     (run_analyzer (stub_lib (\<lambda>code. Inr (Module [Import [Alias ''os'' None]] []))) ''import os'' [])
   = map_sum (\<lambda>e. e) fst
     (run_analyzer (stub_lib (\<lambda>code. Inr (Module [Import [Alias ''os'' None]] []))) ''import os''
        [Print ''earlier''])
   \<and> map_sum (\<lambda>e. e) fst
     (run_analyzer (stub_lib (\<lambda>code. Inr (Module [Import [Alias ''os'' None]] []))) ''import os'' [])
   = Inr \<lparr>functions = Map.empty, classes = Map.empty, dependencies = {''os''}\<rparr>"
  using extraction_deterministic
    [of "stub_lib (\<lambda>code. Inr (Module [Import [Alias ''os'' None]] []))" "''import os''" "[]"
      "[Print ''earlier'']"]
  by (simp add: run_analyzer_def stub_lib_def init_def)

text \<open>
  C5. When a function name (a class name) is defined more than once, the functions map
  (the classes map), which holds one value for a key, holds for that name the docstring
  of the definition visited last.
\<close>

theorem last_definition_wins:
  "(filter (is_FunctionDef k) (visit_order t) \<noteq> [] \<longrightarrow>
      functions (fst (visit clean t s)) k =
        Some (get_docstring clean (body_of (last (filter (is_FunctionDef k) (visit_order t))))))
   \<and> (filter (is_ClassDef k) (visit_order t) \<noteq> [] \<longrightarrow>
      classes (fst (visit clean t s)) k =
        Some (get_docstring clean (body_of (last (filter (is_ClassDef k) (visit_order t))))))"
  using visit_functions visit_classes by blast

theorem last_definition_wins_witness:
  "filter (is_FunctionDef ''f'') (visit_order twice_defined) \<noteq> []
   \<and> functions (fst (visit (\<lambda>d. d) twice_defined (init, []))) ''f'' = Some (Some ''second'')
   \<and> filter (is_ClassDef ''C'') (visit_order twice_defined) \<noteq> []
   \<and> classes (fst (visit (\<lambda>d. d) twice_defined (init, []))) ''C'' = Some (Some ''two'')"
proof -
  have fs: "filter (is_FunctionDef ''f'') (visit_order twice_defined) =
      [FunctionDef ''f'' (Other []) [Expr (Constant (StrV ''first''))] [] None [],
       FunctionDef ''f'' (Other []) [Expr (Constant (StrV ''second''))] [] None []]"
    by (simp add: twice_defined_def visit_order.simps)
  have cs: "filter (is_ClassDef ''C'') (visit_order twice_defined) =
      [ClassDef ''C'' [] [] [Expr (Constant (StrV ''one''))] [] [],
       ClassDef ''C'' [] [] [Expr (Constant (StrV ''two''))] [] []]"
    by (simp add: twice_defined_def visit_order.simps)
  show ?thesis
    using last_definition_wins [of "''f''" twice_defined "\<lambda>d. d" "(init, [])"]
      last_definition_wins [of "''C''" twice_defined "\<lambda>d. d" "(init, [])"]
    by (simp add: fs cs get_docstring_def)
qed

text \<open>
  C6. A definition without a docstring is stored with the absent marker, and only such a
  definition is: the stored value is \<open>None\<close> exactly when the last visited definition
  of the name has no docstring literal. A definition whose docstring is the empty string
  is stored with the empty string (\<open>inspect.cleandoc\<close> maps the empty string to itself),
  which differs from the absent marker.
\<close>

theorem absent_docstring_differs_from_empty:
  "(filter (is_FunctionDef k) (visit_order t) \<noteq> [] \<longrightarrow>
      ((functions (fst (visit clean t s)) k = Some None) =
         (docstring_literal (body_of (last (filter (is_FunctionDef k) (visit_order t)))) = None))
      \<and> (clean [] = [] \<and>
           docstring_literal (body_of (last (filter (is_FunctionDef k) (visit_order t)))) = Some []
         \<longrightarrow> functions (fst (visit clean t s)) k = Some (Some [])))
   \<and> (filter (is_ClassDef k) (visit_order t) \<noteq> [] \<longrightarrow>
      ((classes (fst (visit clean t s)) k = Some None) =
         (docstring_literal (body_of (last (filter (is_ClassDef k) (visit_order t)))) = None))
      \<and> (clean [] = [] \<and>
           docstring_literal (body_of (last (filter (is_ClassDef k) (visit_order t)))) = Some []
         \<longrightarrow> classes (fst (visit clean t s)) k = Some (Some [])))"
  by (auto simp: visit_functions visit_classes get_docstring_def)

theorem absent_docstring_differs_from_empty_witness:
  "filter (is_FunctionDef ''f'') (visit_order with_and_without) \<noteq> []
   \<and> filter (is_FunctionDef ''g'') (visit_order with_and_without) \<noteq> []
   \<and> filter (is_ClassDef ''C'') (visit_order with_and_without) \<noteq> []
   \<and> filter (is_ClassDef ''D'') (visit_order with_and_without) \<noteq> []
   \<and> functions (fst (visit (\<lambda>d. d) with_and_without (init, []))) ''f'' = Some None
   \<and> functions (fst (visit (\<lambda>d. d) with_and_without (init, []))) ''g'' = Some (Some [])
   \<and> classes (fst (visit (\<lambda>d. d) with_and_without (init, []))) ''C'' = Some None
   \<and> classes (fst (visit (\<lambda>d. d) with_and_without (init, []))) ''D'' = Some (Some [])"
proof -
  have f: "filter (is_FunctionDef ''f'') (visit_order with_and_without) =
      [FunctionDef ''f'' (Other []) [Other []] [] None []]"
    by (simp add: with_and_without_def visit_order.simps)
  have g: "filter (is_FunctionDef ''g'') (visit_order with_and_without) =
      [FunctionDef ''g'' (Other []) [Expr (Constant (StrV ''''))] [] None []]"
    by (simp add: with_and_without_def visit_order.simps)
  have c: "filter (is_ClassDef ''C'') (visit_order with_and_without) =
      [ClassDef ''C'' [] [] [Other []] [] []]"
    by (simp add: with_and_without_def visit_order.simps)
  have d: "filter (is_ClassDef ''D'') (visit_order with_and_without) =
      [ClassDef ''D'' [] [] [Expr (Constant (StrV ''''))] [] []]"
    by (simp add: with_and_without_def visit_order.simps)
  show ?thesis
    using absent_docstring_differs_from_empty [of "''f''" with_and_without "\<lambda>d. d" "(init, [])"]
      absent_docstring_differs_from_empty [of "''g''" with_and_without "\<lambda>d. d" "(init, [])"]
      absent_docstring_differs_from_empty [of "''C''" with_and_without "\<lambda>d. d" "(init, [])"]
      absent_docstring_differs_from_empty [of "''D''" with_and_without "\<lambda>d. d" "(init, [])"]
    by (simp add: f g c d)
qed

text \<open>
  C7. When the text of the input file does not parse, the run ends with the parser's
  exception before anything is written: the world (files and console) is as before, and
  the exit status is not zero.
\<close>

theorem parse_error_writes_nothing:
  "files w file_path = Some code \<Longrightarrow> ast_parse L code = Inl e \<Longrightarrow>
   analyze_file L file_path w = (w, Uncaught e)
   \<and> main L [prog, file_path] w = (w, Uncaught e)
   \<and> files (fst (main L [prog, file_path] w)) = files w
   \<and> exit_status (snd (main L [prog, file_path] w)) \<noteq> 0"
  by (simp add: main_def analyze_file_def run_analyzer_def)

theorem parse_error_writes_nothing_witness:
  "files \<lparr>files = [''bad.py'' \<mapsto> ''def (''], stdout = []\<rparr> ''bad.py'' = Some ''def (''
   \<and> ast_parse (stub_lib (\<lambda>code. Inl SyntaxError)) ''def ('' = Inl SyntaxError
   \<and> main (stub_lib (\<lambda>code. Inl SyntaxError)) [''code_analysis.py'', ''bad.py'']
         \<lparr>files = [''bad.py'' \<mapsto> ''def (''], stdout = []\<rparr>
       = (\<lparr>files = [''bad.py'' \<mapsto> ''def (''], stdout = []\<rparr>, Uncaught SyntaxError)
   \<and> exit_status (snd (main (stub_lib (\<lambda>code. Inl SyntaxError)) [''code_analysis.py'', ''bad.py'']
         \<lparr>files = [''bad.py'' \<mapsto> ''def (''], stdout = []\<rparr>)) = 1"
proof -
  let ?w = "\<lparr>files = [''bad.py'' \<mapsto> ''def (''], stdout = []\<rparr>"
  let ?L = "stub_lib (\<lambda>code. Inl SyntaxError)"
  have f: "files ?w ''bad.py'' = Some ''def (''"
    by simp
  have p: "ast_parse ?L ''def ('' = Inl SyntaxError"
    by (simp add: stub_lib_def)
  show ?thesis
    using f p parse_error_writes_nothing [OF f p, of "''code_analysis.py''"]
    by simp
qed

text \<open>
  C8. Called with a number of positional arguments other than one, the program prints the
  usage line to standard output and exits with status 1; no file is read or written.
\<close>

theorem usage_error:
  "length args \<noteq> 1 \<Longrightarrow>
   main L (prog # args) w =
     (w\<lparr>stdout := stdout w @ [Print (''Usage: '' @ prog @ '' <path_to_python_file>'')]\<rparr>,
      Exited 1)
   \<and> exit_status (snd (main L (prog # args) w)) = 1
   \<and> files (fst (main L (prog # args) w)) = files w"
  by (simp add: main_def)

theorem usage_error_witness:
  "length ([] :: string list) \<noteq> 1 \<and> length [''a.py'', ''b.py''] \<noteq> 1
   \<and> main (stub_lib (\<lambda>code. Inl SyntaxError)) [''code_analysis.py'']
         \<lparr>files = [''a.py'' \<mapsto> ''import os''], stdout = []\<rparr>
       = (\<lparr>files = [''a.py'' \<mapsto> ''import os''],
            stdout = [Print ''Usage: code_analysis.py <path_to_python_file>'']\<rparr>, Exited 1)
   \<and> main (stub_lib (\<lambda>code. Inl SyntaxError)) [''code_analysis.py'', ''a.py'', ''b.py'']
         \<lparr>files = [''a.py'' \<mapsto> ''import os''], stdout = []\<rparr>
       = (\<lparr>files = [''a.py'' \<mapsto> ''import os''],
            stdout = [Print ''Usage: code_analysis.py <path_to_python_file>'']\<rparr>, Exited 1)"
proof -
  let ?w = "\<lparr>files = [''a.py'' \<mapsto> ''import os''], stdout = []\<rparr>"
  let ?L = "stub_lib (\<lambda>code. Inl SyntaxError)"
  have none: "length ([] :: string list) \<noteq> 1" and two: "length [''a.py'', ''b.py''] \<noteq> 1"
    by simp_all
  show ?thesis
    using usage_error [OF none, of ?L "''code_analysis.py''" ?w]
      usage_error [OF two, of ?L "''code_analysis.py''" ?w]
    by simp
qed

text \<open>
  C9. An \<open>async def\<close> is traversed generically: visiting it is visiting its children,
  and it adds no entry of its own. A name that no plain function definition (no class
  definition) inside it bears keeps the entry it had in the functions (classes) map.
\<close>

theorem async_def_not_recorded:
  "visit clean (AsyncFunctionDef nm args body decos ret tps) s =
     fold (visit clean) (args # body @ decos @ opt_list ret @ tps) s
   \<and> (filter (is_FunctionDef k) (visit_order (AsyncFunctionDef nm args body decos ret tps)) = []
        \<longrightarrow> functions (fst (visit clean (AsyncFunctionDef nm args body decos ret tps) s)) k =
              functions (fst s) k)
   \<and> (filter (is_ClassDef k) (visit_order (AsyncFunctionDef nm args body decos ret tps)) = []
        \<longrightarrow> classes (fst (visit clean (AsyncFunctionDef nm args body decos ret tps) s)) k =
              classes (fst s) k)"
proof (intro conjI impI)
  show "visit clean (AsyncFunctionDef nm args body decos ret tps) s =
     fold (visit clean) (args # body @ decos @ opt_list ret @ tps) s"
    by simp
next
  assume "filter (is_FunctionDef k) (visit_order (AsyncFunctionDef nm args body decos ret tps)) = []"
  then show "functions (fst (visit clean (AsyncFunctionDef nm args body decos ret tps) s)) k =
      functions (fst s) k"
    by (rule visit_functions_untouched)
next
  assume "filter (is_ClassDef k) (visit_order (AsyncFunctionDef nm args body decos ret tps)) = []"
  then show "classes (fst (visit clean (AsyncFunctionDef nm args body decos ret tps) s)) k =
      classes (fst s) k"
    by (rule visit_classes_untouched)
qed

theorem async_def_not_recorded_witness:
  "filter (is_FunctionDef ''f'')
     (visit_order (AsyncFunctionDef ''f'' (Other []) [Expr (Constant (StrV ''doc''))] [] None [])) = []
   \<and> filter (is_ClassDef ''f'')
     (visit_order (AsyncFunctionDef ''f'' (Other []) [Expr (Constant (StrV ''doc''))] [] None [])) = []
   \<and> functions (fst (visit (\<lambda>d. d)
        (AsyncFunctionDef ''f'' (Other []) [Expr (Constant (StrV ''doc''))] [] None []) (init, []))) ''f''
      = None
   \<and> classes (fst (visit (\<lambda>d. d)
        (AsyncFunctionDef ''f'' (Other []) [Expr (Constant (StrV ''doc''))] [] None []) (init, []))) ''f''
      = None"
proof -
  let ?t = "AsyncFunctionDef ''f'' (Other []) [Expr (Constant (StrV ''doc''))] [] None []"
  have f: "filter (is_FunctionDef ''f'') (visit_order ?t) = []"
    by (simp add: visit_order.simps)
  have c: "filter (is_ClassDef ''f'') (visit_order ?t) = []"
    by (simp add: visit_order.simps)
  note async = async_def_not_recorded [of "\<lambda>d. d" "''f''" "Other []"
        "[Expr (Constant (StrV ''doc''))]" "[]" None "[]" "(init, [])" "''f''"]
  from async [THEN conjunct2, THEN conjunct1, THEN mp, OF f]
  have fn: "functions (fst (visit (\<lambda>d. d) ?t (init, []))) ''f'' = None"
    by (simp only: fst_conv init_def analyzer.simps)
  from async [THEN conjunct2, THEN conjunct2, THEN mp, OF c]
  have cn: "classes (fst (visit (\<lambda>d. d) ?t (init, []))) ''f'' = None"
    by (simp only: fst_conv init_def analyzer.simps)
  from f c fn cn show ?thesis
    by (intro conjI)
qed

text \<open>
  C10. An import statement records the imported name and never reads the as-name:
  every name of a visited \<open>import\<close> is in the dependency set, an \<open>import\<close> adds its
  names and a from-import its \<open>module.name\<close> keys and nothing else, changing the
  as-names changes nothing, \<open>import numpy as np\<close> gives \<open>numpy\<close> and
  \<open>from x import y as z\<close> gives \<open>x.y\<close>.
\<close>

theorem import_alias_ignored:
  "(Import names \<in> set (visit_order t) \<and> al \<in> set names
      \<longrightarrow> name al \<in> dependencies (fst (visit clean t s)))
   \<and> dependencies (fst (visit clean (Import names) s)) = dependencies (fst s) \<union> name ` set names
   \<and> dependencies (fst (visit clean (ImportFrom m names lvl) s)) =
       dependencies (fst s) \<union> (\<lambda>al. format_opt m @ ''.'' @ name al) ` set names
   \<and> dependencies (fst (visit clean (Import (map (\<lambda>al. Alias (name al) (f al)) names)) s)) =
       dependencies (fst (visit clean (Import names) s))
   \<and> dependencies (fst (visit clean (ImportFrom m (map (\<lambda>al. Alias (name al) (f al)) names) lvl) s)) =
       dependencies (fst (visit clean (ImportFrom m names lvl) s))
   \<and> dependencies (fst (visit clean (Import [Alias ''numpy'' (Some ''np'')]) (init, out))) = {''numpy''}
   \<and> dependencies (fst (visit clean (ImportFrom (Some ''x'') [Alias ''y'' (Some ''z'')] 0) (init, out)))
       = {''x.y''}"
proof -
  have tree: "Import names \<in> set (visit_order t) \<and> al \<in> set names
      \<longrightarrow> name al \<in> dependencies (fst (visit clean t s))"
  proof
    assume a: "Import names \<in> set (visit_order t) \<and> al \<in> set names"
    then have "name al \<in> set (imported (Import names))"
      by simp
    with a have "name al \<in> set (concat (map imported (visit_order t)))"
      using imported_in_order by blast
    then show "name al \<in> dependencies (fst (visit clean t s))"
      by (simp add: visit_dependencies)
  qed
  have node: "dependencies (fst (visit clean (Import ns) s')) = dependencies (fst s') \<union> name ` set ns"
    "dependencies (fst (visit clean (ImportFrom m' ns lvl') s')) =
       dependencies (fst s') \<union> (\<lambda>al. format_opt m' @ ''.'' @ name al) ` set ns"
    for ns s' m' lvl'
    by (simp_all add: record_fst)
  have "name ` set (map (\<lambda>al. Alias (name al) (f al)) names) = name ` set names"
    "(\<lambda>al. format_opt m @ ''.'' @ name al) ` set (map (\<lambda>al. Alias (name al) (f al)) names) =
     (\<lambda>al. format_opt m @ ''.'' @ name al) ` set names"
    by (simp_all add: image_image)
  with tree show ?thesis
    by (simp add: node init_def del: visit.simps)
qed

theorem import_alias_ignored_witness:
  "Import [Alias ''numpy'' (Some ''np'')] \<in> set (visit_order (Module [Import [Alias ''numpy'' (Some ''np'')]] []))
   \<and> ''numpy'' \<in> dependencies (fst (visit (\<lambda>d. d) (Module [Import [Alias ''numpy'' (Some ''np'')]] []) (init, [])))
   \<and> ''np'' \<notin> dependencies (fst (visit (\<lambda>d. d) (Module [Import [Alias ''numpy'' (Some ''np'')]] []) (init, [])))"
proof -
  let ?t = "Module [Import [Alias ''numpy'' (Some ''np'')]] []"
  have n: "Import [Alias ''numpy'' (Some ''np'')] \<in> set (visit_order ?t)"
    by (simp add: visit_order.simps)
  have np: "''np'' \<notin> dependencies (fst (visit (\<lambda>d. d) ?t (init, [])))"
    by (simp add: init_def)
  show ?thesis
    using n np import_alias_ignored [of "[Alias ''numpy'' (Some ''np'')]" ?t "Alias ''numpy'' (Some ''np'')"
        "\<lambda>d. d" "(init, [])"]
    by simp
qed

end
